theory Spec2Isabelle
  imports Main "HOL-Library.Word"
begin

section \<open>Data model of \<open>serial_reader.py\<close>\<close>

text \<open>
  Bytes objects are lists of 8-bit words; a Python \<open>str\<close> is the list of its code points.
  A float is kept as its IEEE-754 bit pattern: the session only passes it through.
\<close>

type_synonym byte = "8 word"
type_synonym bytes = "byte list"
type_synonym pystr = "nat list"
type_synonym pyfloat = "64 word"
type_synonym handle = nat

text \<open>
  The exceptions the code distinguishes. \<open>SerialException\<close> stands for
  \<open>serial.SerialException\<close> and its subclasses, \<open>QueueEmpty\<close> for \<open>queue.Empty\<close>,
  \<open>AttributeError\<close> is what an attribute access on \<open>None\<close> raises, \<open>RuntimeError\<close> what
  \<open>Thread.join\<close> raises, and \<open>OtherException\<close> is any other subclass of \<open>Exception\<close>.
\<close>

datatype exn = SerialException | QueueEmpty | AttributeError | RuntimeError | OtherException

text \<open>
  The thread an operation is called on: a thread of the caller's, or the reader thread of
  the given number, which is where the listener runs.
\<close>

datatype thread = Caller_thread | Reader_thread nat

datatype level = DEBUG | INFO | WARNING | ERROR

text \<open>One constructor per logging call of the source, with the values it interpolates.\<close>

datatype message =
    Msg_connected string int
  | Msg_open_failed string
  | Msg_connection_error exn
  | Msg_connection_unexpected exn
  | Msg_disconnected string
  | Msg_not_connected
  | Msg_already_reading
  | Msg_started_reading
  | Msg_stopped_reading
  | Msg_received nat bytes
  | Msg_read_error exn
  | Msg_read_unexpected exn
  | Msg_wrote int bytes
  | Msg_write_error exn

text \<open>The constructor arguments of \<open>SerialReader\<close>, which are also what \<open>serial.Serial\<close> gets.\<close>

record config =
  port :: string
  baudrate :: int
  timeout :: pyfloat
  bytesize :: int
  parity :: string
  stopbits :: int

text \<open>
  Every call the session makes on the transport, with its arguments and what came back,
  and every invocation of the listener. The trace is ghost state: it is what
  ``performs no transport call'' and ``close is never invoked'' are stated on.
\<close>

datatype event =
    E_open config "exn + handle"
  | E_close handle "exn + unit"
  | E_in_waiting handle "exn + int"
  | E_read handle int "exn + bytes"
  | E_readline handle "exn + bytes"
  | E_write handle bytes "exn + int"
  | E_flush handle "exn + unit"
  | E_listener bytes "exn + unit"

text \<open>
  The transport (pyserial and the device behind it) is an external collaborator. It is a
  parameter of the model: a state of any type \<open>'t\<close> and one function per primitive the
  source calls, each free to raise and to change the state. \<open>t_settings\<close> are the
  attributes \<open>port\<close>, \<open>baudrate\<close>, ... of the \<open>Serial\<close> object.
\<close>

record 't driver =
  t_open :: "config \<Rightarrow> 't \<Rightarrow> (exn + handle) \<times> 't"
  t_is_open :: "handle \<Rightarrow> 't \<Rightarrow> bool"
  t_settings :: "handle \<Rightarrow> 't \<Rightarrow> config"
  t_close :: "handle \<Rightarrow> 't \<Rightarrow> (exn + unit) \<times> 't"
  t_in_waiting :: "handle \<Rightarrow> 't \<Rightarrow> (exn + int) \<times> 't"
  t_read :: "handle \<Rightarrow> int \<Rightarrow> 't \<Rightarrow> (exn + bytes) \<times> 't"
  t_readline :: "handle \<Rightarrow> 't \<Rightarrow> (exn + bytes) \<times> 't"
  t_write :: "handle \<Rightarrow> bytes \<Rightarrow> 't \<Rightarrow> (exn + int) \<times> 't"
  t_flush :: "handle \<Rightarrow> 't \<Rightarrow> (exn + unit) \<times> 't"

text \<open>
  The object \<open>self\<close>. The fields up to \<open>callback\<close> are those \<open>__init__\<close> sets;
  \<open>read_thread\<close> holds the number of the thread object. The last four are the
  surroundings: how many reader threads were started, the calls made on the logger, the
  trace, and the state of the transport (and of the listener's owner).
\<close>

record 't session = config +
  serial_conn :: "handle option"
  is_connected :: bool
  is_reading :: bool
  read_thread :: "nat option"
  data_queue :: "bytes list"
  callback :: "(bytes \<Rightarrow> 't \<Rightarrow> (exn + unit) \<times> 't) option"
  threads_started :: nat
  logged :: "(level \<times> message) list"
  trace :: "event list"
  tstate :: 't

definition init :: "config \<Rightarrow> 't \<Rightarrow> 't session" where
  "init c t = config.extend c
     \<lparr>serial_conn = None, is_connected = False, is_reading = False, read_thread = None,
      data_queue = [], callback = None, threads_started = 0, logged = [], trace = [],
      tstate = t\<rparr>"

definition emit :: "level \<Rightarrow> message \<Rightarrow> 't session \<Rightarrow> 't session" where
  "emit l m s = s\<lparr>logged := logged s @ [(l, m)]\<rparr>"

definition traced :: "event \<Rightarrow> 't \<Rightarrow> 't session \<Rightarrow> 't session" where
  "traced e t s = s\<lparr>trace := trace s @ [e], tstate := t\<rparr>"

section \<open>Library functions the source calls\<close>

subsection \<open>\<open>bytes.decode('utf-8', errors='ignore')\<close>\<close>

definition is_cont :: "byte \<Rightarrow> bool" where
  "is_cont b = (0x80 \<le> b \<and> b \<le> 0xBF)"

definition ok2_of3 :: "byte \<Rightarrow> byte \<Rightarrow> bool" where
  "ok2_of3 b0 b1 =
     (is_cont b1 \<and> \<not> (b0 = 0xE0 \<and> b1 < 0xA0) \<and> \<not> (b0 = 0xED \<and> 0xA0 \<le> b1))"

definition ok2_of4 :: "byte \<Rightarrow> byte \<Rightarrow> bool" where
  "ok2_of4 b0 b1 =
     (is_cont b1 \<and> \<not> (b0 = 0xF0 \<and> b1 < 0x90) \<and> \<not> (b0 = 0xF4 \<and> 0x90 \<le> b1))"

definition low6 :: "byte \<Rightarrow> nat" where
  "low6 b = unat b mod 64"

text \<open>
  An invalid start byte is dropped alone; an invalid continuation drops the bytes before
  it and is looked at again; a sequence cut off by the end of the input is dropped whole.
\<close>

fun decode_ignore :: "bytes \<Rightarrow> pystr" where
  "decode_ignore [] = []"
| "decode_ignore (b0 # r0) =
     (if b0 < 0x80 then unat b0 # decode_ignore r0
      else if b0 < 0xC2 then decode_ignore r0
      else if b0 < 0xE0 then
        (case r0 of
           [] \<Rightarrow> []
         | b1 # r1 \<Rightarrow>
             if is_cont b1 then (unat b0 mod 32 * 64 + low6 b1) # decode_ignore r1
             else decode_ignore r0)
      else if b0 < 0xF0 then
        (case r0 of
           [] \<Rightarrow> []
         | b1 # r1 \<Rightarrow>
             if \<not> ok2_of3 b0 b1 then decode_ignore r0
             else
               (case r1 of
                  [] \<Rightarrow> []
                | b2 # r2 \<Rightarrow>
                    if is_cont b2
                    then (unat b0 mod 16 * 4096 + low6 b1 * 64 + low6 b2) # decode_ignore r2
                    else decode_ignore r1))
      else if b0 < 0xF5 then
        (case r0 of
           [] \<Rightarrow> []
         | b1 # r1 \<Rightarrow>
             if \<not> ok2_of4 b0 b1 then decode_ignore r0
             else
               (case r1 of
                  [] \<Rightarrow> []
                | b2 # r2 \<Rightarrow>
                    if \<not> is_cont b2 then decode_ignore r1
                    else
                      (case r2 of
                         [] \<Rightarrow> []
                       | b3 # r3 \<Rightarrow>
                           if is_cont b3
                           then (unat b0 mod 8 * 262144 + low6 b1 * 4096 + low6 b2 * 64
                                   + low6 b3) # decode_ignore r3
                           else decode_ignore r2)))
      else decode_ignore r0)"

subsection \<open>\<open>str.strip()\<close>\<close>

definition isspace :: "nat \<Rightarrow> bool" where
  "isspace c =
     ((9 \<le> c \<and> c \<le> 13) \<or> (28 \<le> c \<and> c \<le> 32) \<or> c = 0x85 \<or> c = 0xA0 \<or> c = 0x1680
      \<or> (0x2000 \<le> c \<and> c \<le> 0x200A) \<or> c = 0x2028 \<or> c = 0x2029 \<or> c = 0x202F
      \<or> c = 0x205F \<or> c = 0x3000)"

definition strip :: "pystr \<Rightarrow> pystr" where
  "strip s = rev (dropWhile isspace (rev (dropWhile isspace s)))"

subsection \<open>\<open>queue.Queue\<close> without a size limit\<close>

definition Queue_put :: "'a \<Rightarrow> 'a list \<Rightarrow> 'a list" where
  "Queue_put x q = q @ [x]"

definition Queue_get_nowait :: "'a list \<Rightarrow> exn + ('a \<times> 'a list)" where
  "Queue_get_nowait q = (case q of [] \<Rightarrow> Inl QueueEmpty | x # r \<Rightarrow> Inr (x, r))"

subsection \<open>\<open>threading.Thread.join\<close>\<close>

text \<open>
  Joining a started thread, with a timeout: it raises when the thread to join is the
  calling thread, and otherwise returns, whether the thread has ended or not.
\<close>

definition Thread_join :: "thread \<Rightarrow> nat \<Rightarrow> exn + unit" where
  "Thread_join me t = (if me = Reader_thread t then Inl RuntimeError else Inr ())"

section \<open>The transport calls of the session\<close>

text \<open>
  Each call goes through \<open>self.serial_conn\<close>: on \<open>None\<close> the attribute access raises,
  otherwise the driver answers, and the call and its answer go onto the trace.
\<close>

definition conn_in_waiting :: "'t driver \<Rightarrow> 't session \<Rightarrow> (exn + int) \<times> 't session" where
  "conn_in_waiting d s =
     (case serial_conn s of
        None \<Rightarrow> (Inl AttributeError, s)
      | Some h \<Rightarrow>
          (case t_in_waiting d h (tstate s) of (r, t) \<Rightarrow> (r, traced (E_in_waiting h r) t s)))"

definition conn_read :: "'t driver \<Rightarrow> int \<Rightarrow> 't session \<Rightarrow> (exn + bytes) \<times> 't session" where
  "conn_read d n s =
     (case serial_conn s of
        None \<Rightarrow> (Inl AttributeError, s)
      | Some h \<Rightarrow>
          (case t_read d h n (tstate s) of (r, t) \<Rightarrow> (r, traced (E_read h n r) t s)))"

definition conn_readline :: "'t driver \<Rightarrow> 't session \<Rightarrow> (exn + bytes) \<times> 't session" where
  "conn_readline d s =
     (case serial_conn s of
        None \<Rightarrow> (Inl AttributeError, s)
      | Some h \<Rightarrow>
          (case t_readline d h (tstate s) of (r, t) \<Rightarrow> (r, traced (E_readline h r) t s)))"

definition conn_write :: "'t driver \<Rightarrow> bytes \<Rightarrow> 't session \<Rightarrow> (exn + int) \<times> 't session" where
  "conn_write d data s =
     (case serial_conn s of
        None \<Rightarrow> (Inl AttributeError, s)
      | Some h \<Rightarrow>
          (case t_write d h data (tstate s) of (r, t) \<Rightarrow> (r, traced (E_write h data r) t s)))"

text \<open>
  Releasing a \<open>Serial\<close> object. The session holds the only reference to it, so rebinding
  \<open>self.serial_conn\<close> frees it, and the finalizer it inherits from \<open>io.IOBase\<close> calls its
  \<open>close\<close>; what \<open>close\<close> raises there is reported and dropped.
\<close>

definition release :: "'t driver \<Rightarrow> handle \<Rightarrow> 't session \<Rightarrow> 't session" where
  "release d h s = (case t_close d h (tstate s) of (r, t) \<Rightarrow> traced (E_close h r) t s)"

definition conn_flush :: "'t driver \<Rightarrow> 't session \<Rightarrow> (exn + unit) \<times> 't session" where
  "conn_flush d s =
     (case serial_conn s of
        None \<Rightarrow> (Inl AttributeError, s)
      | Some h \<Rightarrow>
          (case t_flush d h (tstate s) of (r, t) \<Rightarrow> (r, traced (E_flush h r) t s)))"

section \<open>The operations of \<open>SerialReader\<close>\<close>

text \<open>
  Every operation returns what the Python returns, \<open>Inr\<close>, or the exception that leaves
  it, \<open>Inl\<close>, together with the session as it then is.
\<close>

definition connect :: "'t driver \<Rightarrow> 't session \<Rightarrow> (exn + bool) \<times> 't session" where
  "connect d s =
     (let c = config.truncate s in
      case t_open d c (tstate s) of
        (Inl e, t) \<Rightarrow>
          (let s1 = traced (E_open c (Inl e)) t s in
           case e of
             SerialException \<Rightarrow> (Inr False, emit ERROR (Msg_connection_error e) s1)
           | _ \<Rightarrow> (Inr False, emit ERROR (Msg_connection_unexpected e) s1))
      | (Inr h, t) \<Rightarrow>
          (let s0 = (traced (E_open c (Inr h)) t s)\<lparr>serial_conn := Some h\<rparr>;
               s1 = (case serial_conn s of None \<Rightarrow> s0 | Some h0 \<Rightarrow> release d h0 s0) in
           if t_is_open d h (tstate s1)
           then (Inr True,
                 emit INFO (Msg_connected (port s1) (baudrate s1)) (s1\<lparr>is_connected := True\<rparr>))
           else (Inr False, emit ERROR (Msg_open_failed (port s1)) s1)))"

text \<open>
  \<open>stop_reading\<close>, called on the thread \<open>me\<close>: it clears the flag and, if there is a thread
  object, joins it for up to two seconds. The wait changes nothing in the session: the
  reader sees the flag at its next loop test. When the join raises, the last line is not
  reached.
\<close>

definition stop_reading :: "thread \<Rightarrow> 't session \<Rightarrow> (exn + unit) \<times> 't session" where
  "stop_reading me s =
     (let s1 = s\<lparr>is_reading := False\<rparr> in
      case (case read_thread s1 of None \<Rightarrow> Inr () | Some t \<Rightarrow> Thread_join me t) of
        Inl e \<Rightarrow> (Inl e, s1)
      | Inr u \<Rightarrow> (Inr (), emit INFO Msg_stopped_reading s1))"

definition disconnect ::
  "'t driver \<Rightarrow> thread \<Rightarrow> 't session \<Rightarrow> (exn + unit) \<times> 't session" where
  "disconnect d me s =
     (case stop_reading me s of
        (Inl e, s1) \<Rightarrow> (Inl e, s1)
      | (Inr u, s1) \<Rightarrow>
          (case serial_conn s1 of
             None \<Rightarrow> (Inr (), s1)
           | Some h \<Rightarrow>
               if t_is_open d h (tstate s1) then
                 (case t_close d h (tstate s1) of
                    (Inl e, t) \<Rightarrow> (Inl e, traced (E_close h (Inl e)) t s1)
                  | (Inr v, t) \<Rightarrow>
                      (Inr (),
                       emit INFO (Msg_disconnected (port s1))
                         ((traced (E_close h (Inr v)) t s1)\<lparr>is_connected := False\<rparr>)))
               else (Inr (), s1)))"

definition set_callback ::
  "(bytes \<Rightarrow> 't \<Rightarrow> (exn + unit) \<times> 't) \<Rightarrow> 't session \<Rightarrow> (exn + unit) \<times> 't session" where
  "set_callback f s = (Inr (), s\<lparr>callback := Some f\<rparr>)"

text \<open>Starting the thread: a new thread object, numbered by how many came before it.\<close>

definition start_reading :: "'t session \<Rightarrow> (exn + unit) \<times> 't session" where
  "start_reading s =
     (if \<not> is_connected s then (Inr (), emit ERROR Msg_not_connected s)
      else if is_reading s then (Inr (), emit WARNING Msg_already_reading s)
      else
        (Inr (),
         emit INFO Msg_started_reading
           (s\<lparr>is_reading := True, read_thread := Some (threads_started s),
              threads_started := Suc (threads_started s)\<rparr>)))"

subsection \<open>The reader thread\<close>

text \<open>Lines 138 to 141: queue the chunk, call the listener if there is one, log.\<close>

definition deliver :: "bytes \<Rightarrow> 't session \<Rightarrow> (exn + unit) \<times> 't session" where
  "deliver data s =
     (let s1 = s\<lparr>data_queue := Queue_put data (data_queue s)\<rparr> in
      case callback s1 of
        None \<Rightarrow> (Inr (), emit DEBUG (Msg_received (length data) data) s1)
      | Some f \<Rightarrow>
          (case f data (tstate s1) of
             (Inl e, t) \<Rightarrow> (Inl e, traced (E_listener data (Inl e)) t s1)
           | (Inr u, t) \<Rightarrow>
               (Inr (),
                emit DEBUG (Msg_received (length data) data)
                  (traced (E_listener data (Inr u)) t s1))))"

text \<open>
  The \<open>try\<close> block of the loop. \<open>in_waiting\<close> is asked twice, once for the test and once
  for the size of the read; the sleep of the other branch changes nothing.
\<close>

definition loop_body :: "'t driver \<Rightarrow> 't session \<Rightarrow> (exn + unit) \<times> 't session" where
  "loop_body d s =
     (case conn_in_waiting d s of
        (Inl e, s1) \<Rightarrow> (Inl e, s1)
      | (Inr n, s1) \<Rightarrow>
          if n > 0 then
            (case conn_in_waiting d s1 of
               (Inl e, s2) \<Rightarrow> (Inl e, s2)
             | (Inr m, s2) \<Rightarrow>
                 (case conn_read d m s2 of
                    (Inl e, s3) \<Rightarrow> (Inl e, s3)
                  | (Inr data, s3) \<Rightarrow> if data \<noteq> [] then deliver data s3 else (Inr (), s3)))
          else (Inr (), s1))"

datatype flow = Continue | Break

text \<open>One pass of the loop once its test has held: the \<open>try\<close> block and the two handlers.\<close>

definition loop_pass :: "'t driver \<Rightarrow> 't session \<Rightarrow> flow \<times> 't session" where
  "loop_pass d s =
     (case loop_body d s of
        (Inr u, s1) \<Rightarrow> (Continue, s1)
      | (Inl e, s1) \<Rightarrow>
          (case e of
             SerialException \<Rightarrow>
               (Break, (emit ERROR (Msg_read_error e) s1)\<lparr>is_connected := False\<rparr>)
           | _ \<Rightarrow> (Break, emit ERROR (Msg_read_unexpected e) s1)))"

datatype task = Exited | Running

text \<open>
  \<open>_read_loop\<close>. The loop runs until the caller clears \<open>is_reading\<close> or the transport
  fails, so it need not end: \<open>read_loop n\<close> is the thread run for at most \<open>n\<close> passes,
  and \<open>Running\<close> says that it has not returned by then. Other threads get their turn
  between two runs.
\<close>

fun read_loop :: "nat \<Rightarrow> 't driver \<Rightarrow> 't session \<Rightarrow> task \<times> 't session" where
  "read_loop 0 d s = (if is_reading s \<and> is_connected s then (Running, s) else (Exited, s))"
| "read_loop (Suc n) d s =
     (if is_reading s \<and> is_connected s then
        (case loop_pass d s of
           (Continue, s1) \<Rightarrow> read_loop n d s1
         | (Break, s1) \<Rightarrow> (Exited, s1))
      else (Exited, s))"

subsection \<open>Direct reads and writes, the queue, the port information\<close>

definition read_line :: "'t driver \<Rightarrow> 't session \<Rightarrow> (exn + pystr option) \<times> 't session" where
  "read_line d s =
     (if \<not> is_connected s then (Inr None, emit ERROR Msg_not_connected s)
      else
        (case conn_readline d s of
           (Inr line, s1) \<Rightarrow>
             if line \<noteq> [] then (Inr (Some (strip (decode_ignore line))), s1)
             else (Inr None, s1)
         | (Inl e, s1) \<Rightarrow>
             (case e of
                SerialException \<Rightarrow> (Inr None, emit ERROR (Msg_read_error e) s1)
              | _ \<Rightarrow> (Inl e, s1))))"

definition read_bytes ::
  "'t driver \<Rightarrow> int \<Rightarrow> 't session \<Rightarrow> (exn + bytes option) \<times> 't session" where
  "read_bytes d n s =
     (if \<not> is_connected s then (Inr None, emit ERROR Msg_not_connected s)
      else
        (case conn_read d n s of
           (Inr data, s1) \<Rightarrow> if data \<noteq> [] then (Inr (Some data), s1) else (Inr None, s1)
         | (Inl e, s1) \<Rightarrow>
             (case e of
                SerialException \<Rightarrow> (Inr None, emit ERROR (Msg_read_error e) s1)
              | _ \<Rightarrow> (Inl e, s1))))"

definition get_queued_data :: "'t session \<Rightarrow> (exn + bytes option) \<times> 't session" where
  "get_queued_data s =
     (case Queue_get_nowait (data_queue s) of
        Inr (x, q) \<Rightarrow> (Inr (Some x), s\<lparr>data_queue := q\<rparr>)
      | Inl e \<Rightarrow> (case e of QueueEmpty \<Rightarrow> (Inr None, s) | _ \<Rightarrow> (Inl e, s)))"

text \<open>
  \<open>write\<close> (named \<open>write_op\<close> here, \<open>write\<close> being a keyword). First its \<open>try\<close>
  block: the write, then the flush, then the debug line.
\<close>

definition write_body :: "'t driver \<Rightarrow> bytes \<Rightarrow> 't session \<Rightarrow> (exn + bool) \<times> 't session" where
  "write_body d data s =
     (case conn_write d data s of
        (Inl e, s1) \<Rightarrow> (Inl e, s1)
      | (Inr bytes_written, s1) \<Rightarrow>
          (case conn_flush d s1 of
             (Inl e, s2) \<Rightarrow> (Inl e, s2)
           | (Inr u, s2) \<Rightarrow> (Inr True, emit DEBUG (Msg_wrote bytes_written data) s2)))"

definition write_op :: "'t driver \<Rightarrow> bytes \<Rightarrow> 't session \<Rightarrow> (exn + bool) \<times> 't session" where
  "write_op d data s =
     (if \<not> is_connected s then (Inr False, emit ERROR Msg_not_connected s)
      else
        (case write_body d data s of
           (Inr b, s1) \<Rightarrow> (Inr b, s1)
         | (Inl e, s1) \<Rightarrow>
             (case e of
                SerialException \<Rightarrow> (Inr False, emit ERROR (Msg_write_error e) s1)
              | _ \<Rightarrow> (Inl e, s1))))"

datatype pyval = V_str string | V_int int | V_float pyfloat | V_bool bool

definition get_port_info ::
  "'t driver \<Rightarrow> 't session \<Rightarrow> (exn + (string \<times> pyval) list) \<times> 't session" where
  "get_port_info d s =
     (case serial_conn s of
        None \<Rightarrow> (Inr [], s)
      | Some h \<Rightarrow>
          (let c = t_settings d h (tstate s); opn = t_is_open d h (tstate s) in
           case (if opn then conn_in_waiting d s else (Inr 0, s)) of
             (Inl e, s1) \<Rightarrow> (Inl e, s1)
           | (Inr n, s1) \<Rightarrow>
               (Inr [(''port'', V_str (port c)), (''baudrate'', V_int (baudrate c)),
                     (''bytesize'', V_int (bytesize c)), (''parity'', V_str (parity c)),
                     (''stopbits'', V_int (stopbits c)), (''timeout'', V_float (timeout c)),
                     (''is_open'', V_bool opn), (''in_waiting'', V_int n)],
                s1)))"

section \<open>Reading the trace, and the consumer\<close>

text \<open>The non-empty chunks that the \<open>read\<close> calls of a trace returned, in order.\<close>

fun chunks_read :: "event list \<Rightarrow> bytes list" where
  "chunks_read [] = []"
| "chunks_read (E_read h n (Inr data) # es) =
     (if data \<noteq> [] then data # chunks_read es else chunks_read es)"
| "chunks_read (e # es) = chunks_read es"

text \<open>What the listener was called with, in order.\<close>

fun heard :: "event list \<Rightarrow> bytes list" where
  "heard [] = []"
| "heard (E_listener data r # es) = data # heard es"
| "heard (e # es) = heard es"


text \<open>The events between an earlier session and a later one.\<close>

definition since :: "'t session \<Rightarrow> 't session \<Rightarrow> event list" where
  "since s s1 = drop (length (trace s)) (trace s1)"

text \<open>
  \<open>grows s s1 new\<close>: from \<open>s\<close> to \<open>s1\<close> the trace grew by \<open>new\<close>, the queue by the
  chunks read in \<open>new\<close>, and the listener, if there is one, was called with just those
  chunks; the listener itself is the same.
\<close>

definition grows :: "'t session \<Rightarrow> 't session \<Rightarrow> event list \<Rightarrow> bool" where
  "grows s s1 new =
     (trace s1 = trace s @ new \<and> data_queue s1 = data_queue s @ chunks_read new
      \<and> heard new = (case callback s of None \<Rightarrow> [] | Some f \<Rightarrow> chunks_read new)
      \<and> callback s1 = callback s)"

text \<open>
  The consumer that drains the queue: it calls \<open>get_queued_data\<close> until nothing comes
  back. This loop is the caller's, not the module's.
\<close>

function drain_queue :: "'t session \<Rightarrow> bytes list \<times> 't session" where
  "drain_queue s =
     (case get_queued_data s of
        (Inr (Some c), s1) \<Rightarrow> (case drain_queue s1 of (cs, s2) \<Rightarrow> (c # cs, s2))
      | (r, s1) \<Rightarrow> ([], s1))"
  by pat_completeness auto
termination
  apply (relation "measure (\<lambda>s. length (data_queue s))")
   apply simp
  apply (auto simp: get_queued_data_def Queue_get_nowait_def split: list.splits)
  done

declare drain_queue.simps [simp del]

section \<open>Transports and sessions to run the model on\<close>

text \<open>The defaults of \<open>__init__\<close>; the timeout is the double 1.0.\<close>

definition default_config :: config where
  "default_config =
     \<lparr>port = ''/dev/ttyUSB0'', baudrate = 9600, timeout = 0x3FF0000000000000, bytesize = 8,
      parity = ''N'', stopbits = 1\<rparr>"

text \<open>A transport that hands out the chunks of a list, one per read.\<close>

definition chunk_feed :: "bytes list driver" where
  "chunk_feed =
     \<lparr>t_open = (\<lambda>c t. (Inr 0, t)),
      t_is_open = (\<lambda>h t. True),
      t_settings = (\<lambda>h t. default_config),
      t_close = (\<lambda>h t. (Inr (), t)),
      t_in_waiting = (\<lambda>h t. (Inr (case t of [] \<Rightarrow> 0 | c # r \<Rightarrow> int (length c)), t)),
      t_read =
        (\<lambda>h n t. case t of
           [] \<Rightarrow> (Inr [], [])
         | c # r \<Rightarrow>
             (Inr (take (nat n) c), if length c \<le> nat n then r else drop (nat n) c # r)),
      t_readline = (\<lambda>h t. case t of [] \<Rightarrow> (Inr [], []) | c # r \<Rightarrow> (Inr c, r)),
      t_write = (\<lambda>h data t. (Inr (int (length data)), t)),
      t_flush = (\<lambda>h t. (Inr (), t))\<rparr>"

text \<open>A listener that returns at once.\<close>

definition quiet :: "bytes \<Rightarrow> 't \<Rightarrow> (exn + unit) \<times> 't" where
  "quiet data t = (Inr (), t)"

text \<open>A session opened on three pending chunks, with a listener, its reader started.\<close>

definition feeding :: "bytes list session" where
  "feeding =
     snd (start_reading (snd (set_callback quiet
       (snd (connect chunk_feed (init default_config [[0x41], [0x42, 0x43], [0x44]]))))))"

text \<open>
  A loopback transport: what is written is what is read back. \<open>readline\<close> returns up to
  and including the first line feed, or all there is when its timeout ends the wait.
\<close>

fun first_line :: "bytes \<Rightarrow> bytes" where
  "first_line [] = []"
| "first_line (b # r) = (if b = 0x0A then [b] else b # first_line r)"

definition loopback :: "bytes driver" where
  "loopback =
     \<lparr>t_open = (\<lambda>c t. (Inr 0, t)),
      t_is_open = (\<lambda>h t. True),
      t_settings = (\<lambda>h t. default_config),
      t_close = (\<lambda>h t. (Inr (), t)),
      t_in_waiting = (\<lambda>h t. (Inr (int (length t)), t)),
      t_read = (\<lambda>h n t. (Inr (take (nat n) t), drop (nat n) t)),
      t_readline = (\<lambda>h t. (Inr (first_line t), drop (length (first_line t)) t)),
      t_write = (\<lambda>h data t. (Inr (int (length data)), t @ data)),
      t_flush = (\<lambda>h t. (Inr (), t))\<rparr>"

text \<open>
  A transport that opens, handing out a new handle each time and reporting it open, and
  then fails every call with the given exception.
\<close>

definition failing :: "exn \<Rightarrow> nat driver" where
  "failing e =
     \<lparr>t_open = (\<lambda>c t. (Inr t, Suc t)),
      t_is_open = (\<lambda>h t. True),
      t_settings = (\<lambda>h t. default_config),
      t_close = (\<lambda>h t. (Inl e, t)),
      t_in_waiting = (\<lambda>h t. (Inl e, t)),
      t_read = (\<lambda>h n t. (Inl e, t)),
      t_readline = (\<lambda>h t. (Inl e, t)),
      t_write = (\<lambda>h data t. (Inl e, t)),
      t_flush = (\<lambda>h t. (Inl e, t))\<rparr>"

text \<open>Sessions: connected on the loopback, new, and connected on the failing transport.\<close>

definition looped :: "bytes session" where
  "looped = snd (connect loopback (init default_config []))"

definition fresh :: "nat session" where
  "fresh = init default_config 0"

definition opened :: "exn \<Rightarrow> nat session" where
  "opened e = snd (connect (failing e) fresh)"

text \<open>
  The failing transport under a started reader: the session once the thread has run,
  and the same after \<open>connect\<close> was called again.
\<close>

definition dropped :: "exn \<Rightarrow> nat session" where
  "dropped e = snd (read_loop 3 (failing e) (snd (start_reading (opened e))))"

definition reopened :: "nat session" where
  "reopened = snd (connect (failing SerialException) (dropped SerialException))"




text \<open>
  Whether a call on thread \<open>me\<close> would join its own thread: \<open>me\<close> is the reader thread
  that \<open>read_thread\<close> holds.
\<close>

definition joins_itself :: "thread \<Rightarrow> 't session \<Rightarrow> bool" where
  "joins_itself me s =
     (case me of Caller_thread \<Rightarrow> False | Reader_thread t \<Rightarrow> read_thread s = Some t)"

text \<open>A connected session holds a handle: \<open>connect\<close> stores it before it sets the flag.\<close>

definition has_handle :: "'t session \<Rightarrow> bool" where
  "has_handle s = (if is_connected s then serial_conn s \<noteq> None else True)"

section \<open>Properties\<close>

subsection \<open>The reader thread and the queue\<close>

lemma chunks_read_append: "chunks_read (xs @ ys) = chunks_read xs @ chunks_read ys"
  by (induction xs rule: chunks_read.induct) auto

lemma heard_append: "heard (xs @ ys) = heard xs @ heard ys"
  by (induction xs rule: heard.induct) auto

lemma drain_queue_eq: "drain_queue s = (data_queue s, s\<lparr>data_queue := []\<rparr>)"
proof (induction "data_queue s" arbitrary: s)
  case Nil
  then show ?case
    by (subst drain_queue.simps) (simp add: get_queued_data_def Queue_get_nowait_def)
next
  case (Cons c q)
  from Cons(2) have g: "get_queued_data s = (Inr (Some c), s\<lparr>data_queue := q\<rparr>)"
    by (simp add: get_queued_data_def Queue_get_nowait_def flip: Cons(2))
  have "drain_queue (s\<lparr>data_queue := q\<rparr>) = (q, s\<lparr>data_queue := []\<rparr>)"
    using Cons(1)[of "s\<lparr>data_queue := q\<rparr>"] by simp
  then show ?case
    by (subst drain_queue.simps) (simp add: g flip: Cons(2))
qed


lemma grows_refl: "grows s s []"
  by (simp add: grows_def split: option.splits)

lemma grows_trans: "grows s s1 a \<Longrightarrow> grows s1 s2 b \<Longrightarrow> grows s s2 (a @ b)"
  by (auto simp: grows_def chunks_read_append heard_append split: option.splits)

lemma grows_emit: "grows s s1 new \<Longrightarrow> grows s (emit l m s1) new"
  by (simp add: grows_def emit_def)

lemma grows_flag: "grows s s1 new \<Longrightarrow> grows s (s1\<lparr>is_connected := b\<rparr>) new"
  by (simp add: grows_def)

lemma conn_in_waiting_grows: "\<exists>new. grows s (snd (conn_in_waiting d s)) new"
proof (cases "serial_conn s")
  case None
  then show ?thesis using grows_refl[of s] by (auto simp: conn_in_waiting_def)
next
  case (Some h)
  obtain r t where c: "t_in_waiting d h (tstate s) = (r, t)" by force
  have "grows s (traced (E_in_waiting h r) t s) [E_in_waiting h r]"
    by (simp add: grows_def traced_def split: option.splits)
  with Some c show ?thesis by (auto simp: conn_in_waiting_def)
qed

lemma conn_read_fails_grows:
  assumes "conn_read d n s = (Inl e, s1)"
  shows "\<exists>new. grows s s1 new"
proof (cases "serial_conn s")
  case None
  with assms show ?thesis using grows_refl[of s] by (auto simp: conn_read_def)
next
  case (Some h)
  obtain r t where c: "t_read d h n (tstate s) = (r, t)" by force
  with Some assms have "r = Inl e" and "s1 = traced (E_read h n (Inl e)) t s"
    by (auto simp: conn_read_def)
  moreover have "grows s (traced (E_read h n (Inl e)) t s) [E_read h n (Inl e)]"
    by (simp add: grows_def traced_def split: option.splits)
  ultimately show ?thesis by blast
qed

lemma conn_read_empty_grows:
  assumes "conn_read d n s = (Inr [], s1)"
  shows "\<exists>new. grows s s1 new"
proof (cases "serial_conn s")
  case None
  with assms show ?thesis by (auto simp: conn_read_def)
next
  case (Some h)
  obtain r t where c: "t_read d h n (tstate s) = (r, t)" by force
  with Some assms have "r = Inr []" and "s1 = traced (E_read h n (Inr [])) t s"
    by (auto simp: conn_read_def)
  moreover have "grows s (traced (E_read h n (Inr [])) t s) [E_read h n (Inr [])]"
    by (simp add: grows_def traced_def split: option.splits)
  ultimately show ?thesis by blast
qed

lemma read_then_deliver_grows:
  assumes "conn_read d n s = (Inr data, s1)" and "data \<noteq> []"
  shows "\<exists>new. grows s (snd (deliver data s1)) new"
proof (cases "serial_conn s")
  case None
  with assms show ?thesis by (auto simp: conn_read_def)
next
  case (Some h)
  obtain r t where c: "t_read d h n (tstate s) = (r, t)" by force
  with Some assms have s1: "s1 = traced (E_read h n (Inr data)) t s"
    by (auto simp: conn_read_def)
  show ?thesis
  proof (cases "callback s")
    case None
    then have "grows s (snd (deliver data s1)) [E_read h n (Inr data)]"
      using assms(2) by (simp add: s1 deliver_def grows_def traced_def emit_def Queue_put_def)
    then show ?thesis ..
  next
    case (Some f)
    obtain r' t' where f: "f data t = (r', t')" by force
    have "grows s (snd (deliver data s1)) [E_read h n (Inr data), E_listener data r']"
      using assms(2) Some f
      by (cases r') (simp_all add: s1 deliver_def grows_def traced_def emit_def Queue_put_def)
    then show ?thesis ..
  qed
qed

lemma loop_body_grows: "\<exists>new. grows s (snd (loop_body d s)) new"
proof -
  obtain r1 s1 where a: "conn_in_waiting d s = (r1, s1)" by force
  obtain n1 where g1: "grows s s1 n1" using conn_in_waiting_grows[of s d] a by auto
  show ?thesis
  proof (cases r1)
    case (Inl e)
    with a g1 show ?thesis by (auto simp: loop_body_def)
  next
    case (Inr n)
    show ?thesis
    proof (cases "n > 0")
      case False
      with a g1 Inr show ?thesis by (auto simp: loop_body_def)
    next
      case True
      obtain r2 s2 where b: "conn_in_waiting d s1 = (r2, s2)" by force
      obtain n2 where g2: "grows s1 s2 n2" using conn_in_waiting_grows[of s1 d] b by auto
      have g12: "grows s s2 (n1 @ n2)" using g1 g2 by (rule grows_trans)
      show ?thesis
      proof (cases r2)
        case (Inl e)
        with a b Inr True g12 show ?thesis by (auto simp: loop_body_def)
      next
        case m: (Inr m)
        obtain r3 s3 where c: "conn_read d m s2 = (r3, s3)" by force
        have "\<exists>new. grows s2 (snd (loop_body d s)) new"
        proof (cases r3)
          case (Inl e)
          with a b c Inr True m conn_read_fails_grows[of d m s2 e s3] show ?thesis
            by (auto simp: loop_body_def)
        next
          case data: (Inr data)
          show ?thesis
          proof (cases "data = []")
            case True
            with a b c Inr \<open>n > 0\<close> m data conn_read_empty_grows[of d m s2 s3] show ?thesis
              by (auto simp: loop_body_def)
          next
            case False
            with a b c Inr \<open>n > 0\<close> m data read_then_deliver_grows[of d m s2 data s3]
            show ?thesis by (auto simp: loop_body_def)
          qed
        qed
        then obtain n3 where "grows s2 (snd (loop_body d s)) n3" ..
        with g12 have "grows s (snd (loop_body d s)) ((n1 @ n2) @ n3)" by (rule grows_trans)
        then show ?thesis ..
      qed
    qed
  qed
qed

lemma loop_pass_grows: "\<exists>new. grows s (snd (loop_pass d s)) new"
proof -
  obtain new where g: "grows s (snd (loop_body d s)) new" using loop_body_grows by blast
  obtain r s1 where b: "loop_body d s = (r, s1)" by force
  with g have "grows s s1 new" by simp
  then show ?thesis
    using b by (auto simp: loop_pass_def intro: grows_emit grows_flag split: sum.splits exn.splits)
qed

lemma read_loop_grows: "\<exists>new. grows s (snd (read_loop n d s)) new"
proof (induction n arbitrary: s)
  case 0
  show ?case using grows_refl[of s] by auto
next
  case (Suc n)
  show ?case
  proof (cases "is_reading s \<and> is_connected s")
    case False
    then show ?thesis using grows_refl[of s] by auto
  next
    case True
    obtain f s1 where p: "loop_pass d s = (f, s1)" by force
    obtain a where ga: "grows s s1 a" using loop_pass_grows[of s d] p by auto
    show ?thesis
    proof (cases f)
      case Break
      with True p ga show ?thesis by auto
    next
      case Continue
      obtain b where "grows s1 (snd (read_loop n d s1)) b" using Suc by blast
      with ga have "grows s (snd (read_loop n d s1)) (a @ b)" by (rule grows_trans)
      with True p Continue show ?thesis by auto
    qed
  qed
qed


lemmas ops = init_def connect_def release_def Thread_join_def set_callback_def start_reading_def stop_reading_def
  disconnect_def emit_def traced_def config.truncate_def config.extend_def
  conn_in_waiting_def conn_read_def conn_readline_def conn_write_def conn_flush_def
  loop_body_def loop_pass_def deliver_def Queue_put_def Queue_get_nowait_def
  get_queued_data_def read_line_def read_bytes_def write_op_def write_body_def
  get_port_info_def


lemma since_grows: "grows s s1 new \<Longrightarrow> since s s1 = new"
  by (simp add: grows_def since_def)

lemma deliver_queue: "data_queue (snd (deliver c s)) = data_queue s @ [c]"
  by (simp add: deliver_def Queue_put_def emit_def traced_def Let_def
      split: option.splits prod.splits sum.splits)

text \<open>
  Claim C1. Whatever the transport does and however long the reader thread runs, the
  queue grows by exactly the non-empty chunks its reads returned, in the order they were
  read, so that draining the queue with \<open>get_queued_data\<close> yields the chunks queued
  before followed by those chunks; a registered listener was called with the same chunks
  in the same order (and no listener with none). A chunk is in the queue before the
  listener sees it: it is there whether the listener returns or raises.
\<close>

theorem reader_delivers_in_order:
  "trace (snd (read_loop n d s)) = trace s @ since s (snd (read_loop n d s))
   \<and> fst (drain_queue (snd (read_loop n d s)))
        = data_queue s @ chunks_read (since s (snd (read_loop n d s)))
   \<and> heard (since s (snd (read_loop n d s)))
        = (case callback s of
             None \<Rightarrow> []
           | Some f \<Rightarrow> chunks_read (since s (snd (read_loop n d s))))
   \<and> data_queue (snd (deliver c s)) = data_queue s @ [c]"
proof -
  obtain new where g: "grows s (snd (read_loop n d s)) new"
    using read_loop_grows by blast
  then have "since s (snd (read_loop n d s)) = new" by (rule since_grows)
  with g show ?thesis
    by (simp add: grows_def drain_queue_eq deliver_queue split: option.splits)
qed


lemma feeding_eval:
  "feeding =
     \<lparr>port = ''/dev/ttyUSB0'', baudrate = 9600, timeout = 0x3FF0000000000000, bytesize = 8,
      parity = ''N'', stopbits = 1, serial_conn = Some 0, is_connected = True,
      is_reading = True, read_thread = Some 0, data_queue = [], callback = Some quiet,
      threads_started = 1,
      logged = [(INFO, Msg_connected ''/dev/ttyUSB0'' 9600), (INFO, Msg_started_reading)],
      trace = [E_open default_config (Inr 0)],
      tstate = [[0x41], [0x42, 0x43], [0x44]]\<rparr>"
  by (simp add: feeding_def ops chunk_feed_def default_config_def)

lemma feeding_run:
  "since feeding (snd (read_loop 5 chunk_feed feeding)) =
     [E_in_waiting 0 (Inr 1), E_in_waiting 0 (Inr 1),
      E_read 0 1 (Inr [0x41]), E_listener [0x41] (Inr ()),
      E_in_waiting 0 (Inr 2), E_in_waiting 0 (Inr 2),
      E_read 0 2 (Inr [0x42, 0x43]), E_listener [0x42, 0x43] (Inr ()),
      E_in_waiting 0 (Inr 1), E_in_waiting 0 (Inr 1),
      E_read 0 1 (Inr [0x44]), E_listener [0x44] (Inr ()),
      E_in_waiting 0 (Inr 0), E_in_waiting 0 (Inr 0)]"
  by (simp add: since_def feeding_eval ops chunk_feed_def quiet_def numeral_nat)

theorem reader_delivers_in_order_witness:
  "data_queue feeding = []
   \<and> callback feeding = Some quiet
   \<and> fst (drain_queue (snd (read_loop 5 chunk_feed feeding))) = [[0x41], [0x42, 0x43], [0x44]]
   \<and> heard (since feeding (snd (read_loop 5 chunk_feed feeding)))
        = [[0x41], [0x42, 0x43], [0x44]]"
proof -
  have q: "data_queue feeding = []" and c: "callback feeding = Some quiet"
    by (simp_all add: feeding_eval)
  show ?thesis
    using reader_delivers_in_order [of 5 chunk_feed feeding "[]"]
    by (simp add: q c feeding_run)
qed

subsection \<open>The library functions on examples\<close>

lemma decode_examples:
  "decode_ignore [0xC3, 0xA9] = [0xE9]"
  "decode_ignore [0x41, 0xFF, 0x42] = [0x41, 0x42]"
  "decode_ignore [0xE2, 0x82, 0xAC] = [0x20AC]"
  "decode_ignore [0xF0, 0x9F, 0x98, 0x80] = [0x1F600]"
  "decode_ignore [0x41, 0xE2, 0x82] = [0x41]"
  "decode_ignore [0xE2, 0x41] = [0x41]"
  "decode_ignore [0xED, 0xA0, 0x80] = []"
  "decode_ignore [0xC0, 0x80] = []"
  by (simp_all add: is_cont_def ok2_of3_def ok2_of4_def low6_def)

subsection \<open>The sessions the model is run on\<close>

lemma looped_eval:
  "looped =
     \<lparr>port = ''/dev/ttyUSB0'', baudrate = 9600, timeout = 0x3FF0000000000000, bytesize = 8,
      parity = ''N'', stopbits = 1, serial_conn = Some 0, is_connected = True,
      is_reading = False, read_thread = None, data_queue = [], callback = None,
      threads_started = 0,
      logged = [(INFO, Msg_connected ''/dev/ttyUSB0'' 9600)],
      trace = [E_open default_config (Inr 0)],
      tstate = []\<rparr>"
  by (simp add: looped_def ops loopback_def default_config_def)

lemma fresh_eval:
  "fresh =
     \<lparr>port = ''/dev/ttyUSB0'', baudrate = 9600, timeout = 0x3FF0000000000000, bytesize = 8,
      parity = ''N'', stopbits = 1, serial_conn = None, is_connected = False,
      is_reading = False, read_thread = None, data_queue = [], callback = None,
      threads_started = 0, logged = [], trace = [], tstate = 0\<rparr>"
  by (simp add: fresh_def ops default_config_def)

lemma opened_eval:
  "opened e =
     \<lparr>port = ''/dev/ttyUSB0'', baudrate = 9600, timeout = 0x3FF0000000000000, bytesize = 8,
      parity = ''N'', stopbits = 1, serial_conn = Some 0, is_connected = True,
      is_reading = False, read_thread = None, data_queue = [], callback = None,
      threads_started = 0,
      logged = [(INFO, Msg_connected ''/dev/ttyUSB0'' 9600)],
      trace = [E_open default_config (Inr 0)],
      tstate = 1\<rparr>"
  by (simp add: opened_def fresh_eval ops failing_def default_config_def)


subsection \<open>A connected session holds a handle\<close>

lemma has_handle_init: "has_handle (init c t)"
  by (simp add: has_handle_def init_def config.extend_def)

lemma has_handle_connect: "has_handle s \<Longrightarrow> has_handle (snd (connect d s))"
  by (auto simp: has_handle_def connect_def release_def emit_def traced_def Let_def
      split: prod.splits sum.splits exn.splits option.splits if_splits)

lemma has_handle_disconnect: "has_handle s \<Longrightarrow> has_handle (snd (disconnect d me s))"
  by (auto simp: has_handle_def disconnect_def stop_reading_def emit_def traced_def Let_def
      split: prod.splits sum.splits option.splits if_splits)

lemma has_handle_start: "has_handle s \<Longrightarrow> has_handle (snd (start_reading s))"
  by (auto simp: has_handle_def start_reading_def emit_def split: if_splits)

lemma has_handle_stop: "has_handle s \<Longrightarrow> has_handle (snd (stop_reading me s))"
  by (auto simp: has_handle_def stop_reading_def emit_def Let_def
      split: sum.splits option.splits if_splits)

lemma has_handle_write: "has_handle s \<Longrightarrow> has_handle (snd (write_op d data s))"
  by (auto simp: has_handle_def write_op_def write_body_def conn_write_def conn_flush_def
      emit_def traced_def split: prod.splits sum.splits option.splits exn.splits if_splits)

lemma has_handle_read_line: "has_handle s \<Longrightarrow> has_handle (snd (read_line d s))"
  by (auto simp: has_handle_def read_line_def conn_readline_def
      emit_def traced_def split: prod.splits sum.splits option.splits exn.splits if_splits)

subsection \<open>The queue\<close>

text \<open>
  Claim C7. \<open>get_queued_data\<close> is a total function that never raises: on an empty queue
  it returns \<open>None\<close> and leaves the session as it is, and otherwise it returns the chunk
  at the front and removes it. The front is the oldest chunk: \<open>put\<close> appends at the back.
\<close>

theorem get_queued_data_pops_oldest:
  "get_queued_data s =
     (case data_queue s of
        [] \<Rightarrow> (Inr None, s)
      | c # q \<Rightarrow> (Inr (Some c), s\<lparr>data_queue := q\<rparr>))
   \<and> foldl (\<lambda>q x. Queue_put x q) (data_queue s) xs = data_queue s @ xs"
proof -
  have "foldl (\<lambda>q x. Queue_put x q) q xs = q @ xs" for q :: "bytes list"
    by (induction xs arbitrary: q) (simp_all add: Queue_put_def)
  then show ?thesis
    by (simp add: get_queued_data_def Queue_get_nowait_def split: list.splits)
qed

theorem get_queued_data_pops_oldest_witness:
  "get_queued_data fresh = (Inr None, fresh)
   \<and> get_queued_data (fresh\<lparr>data_queue := [[0x41], [0x42]]\<rparr>)
       = (Inr (Some [0x41]), fresh\<lparr>data_queue := [[0x42]]\<rparr>)"
  using get_queued_data_pops_oldest [of fresh "[]"]
    get_queued_data_pops_oldest [of "fresh\<lparr>data_queue := [[0x41], [0x42]]\<rparr>" "[]"]
  by (simp add: fresh_eval)

lemma connect_queue: "data_queue (snd (connect d s)) = data_queue s"
  by (simp add: connect_def release_def emit_def traced_def Let_def
      split: prod.splits sum.splits exn.splits option.splits)

lemma stop_reading_queue: "data_queue (snd (stop_reading me s)) = data_queue s"
  by (simp add: stop_reading_def emit_def Let_def split: sum.splits option.splits)

lemma start_reading_queue: "data_queue (snd (start_reading s)) = data_queue s"
  by (simp add: start_reading_def emit_def)

lemma disconnect_queue: "data_queue (snd (disconnect d me s)) = data_queue s"
proof -
  obtain r s1 where a: "stop_reading me s = (r, s1)" by force
  with stop_reading_queue [of me s] have "data_queue s1 = data_queue s" by simp
  with a show ?thesis
    by (simp add: disconnect_def emit_def traced_def
        split: prod.splits sum.splits option.splits)
qed

text \<open>
  Claim C9. None of \<open>connect\<close>, \<open>disconnect\<close>, \<open>start_reading\<close> and \<open>stop_reading\<close>
  touches the queue, whatever the session and the transport: the chunks queued before are
  still there, in order, and draining after \<open>stop_reading\<close> and \<open>disconnect\<close> yields them.
\<close>

theorem lifecycle_keeps_queue:
  "data_queue (snd (connect d s)) = data_queue s
   \<and> data_queue (snd (disconnect d me s)) = data_queue s
   \<and> data_queue (snd (start_reading s)) = data_queue s
   \<and> data_queue (snd (stop_reading me s)) = data_queue s
   \<and> fst (drain_queue (snd (disconnect d me2 (snd (stop_reading me s))))) = data_queue s"
  by (simp add: connect_queue disconnect_queue start_reading_queue stop_reading_queue
      drain_queue_eq)

theorem lifecycle_keeps_queue_witness:
  "fst (drain_queue (snd (disconnect loopback Caller_thread (snd (stop_reading Caller_thread
      (looped\<lparr>data_queue := [[0x41], [0x42, 0x43]]\<rparr>))))))
   = [[0x41], [0x42, 0x43]]"
  using lifecycle_keeps_queue [of loopback "looped\<lparr>data_queue := [[0x41], [0x42, 0x43]]\<rparr>"
      Caller_thread Caller_thread]
  by simp

subsection \<open>Connecting\<close>





subsection \<open>Starting the reader\<close>

text \<open>
  Claim C4, as amended. On a session that is not connected \<open>start_reading\<close> only logs an
  error: no thread is started, and the reading flag and the thread field are left as they
  were, so a session that is not reading stays so. On a session that is connected and
  reading it only logs a warning: no second thread is started and nothing else changes.
\<close>

theorem start_reading_guards:
  "(\<not> is_connected s \<longrightarrow>
      start_reading s = (Inr (), s\<lparr>logged := logged s @ [(ERROR, Msg_not_connected)]\<rparr>)
      \<and> threads_started (snd (start_reading s)) = threads_started s
      \<and> read_thread (snd (start_reading s)) = read_thread s
      \<and> is_reading (snd (start_reading s)) = is_reading s)
   \<and> (is_connected s \<and> is_reading s \<longrightarrow>
      start_reading s = (Inr (), s\<lparr>logged := logged s @ [(WARNING, Msg_already_reading)]\<rparr>)
      \<and> threads_started (snd (start_reading s)) = threads_started s
      \<and> read_thread (snd (start_reading s)) = read_thread s
      \<and> is_reading (snd (start_reading s)))"
  by (simp add: start_reading_def emit_def)

theorem start_reading_guards_witness:
  "\<not> is_connected fresh \<and> \<not> is_reading fresh
   \<and> threads_started (snd (start_reading fresh)) = 0
   \<and> \<not> is_reading (snd (start_reading fresh))
   \<and> is_connected feeding \<and> is_reading feeding
   \<and> threads_started (snd (start_reading feeding)) = threads_started feeding
   \<and> logged (snd (start_reading feeding)) = logged feeding @ [(WARNING, Msg_already_reading)]"
  using start_reading_guards [of fresh] start_reading_guards [of feeding]
  by (simp add: fresh_eval feeding_eval)

subsection \<open>Writing and reading directly\<close>



lemma decode_AT: "decode_ignore [0x41, 0x54, 0x0D, 0x0A] = [0x41, 0x54, 0x0D, 0x0A]"
  by simp

lemma strip_AT: "strip [0x41, 0x54, 0x0D, 0x0A] = [0x41, 0x54]"
  by (simp add: strip_def isspace_def)

text \<open>
  Claim C6. On the loopback transport with nothing pending, writing \<open>b"AT\r\n"\<close> and then
  calling \<open>read_line\<close> returns the text \<open>"AT"\<close>. On any transport, when \<open>readline\<close> returns
  no bytes, \<open>read_line\<close> of a connected session returns \<open>None\<close>.
\<close>

theorem read_line_after_write:
  "(is_connected s \<and> serial_conn s = Some h \<and> tstate s = [] \<longrightarrow>
      fst (read_line loopback (snd (write_op loopback [0x41, 0x54, 0x0D, 0x0A] s)))
        = Inr (Some [0x41, 0x54]))
   \<and> (is_connected s2 \<and> serial_conn s2 = Some h2
        \<and> t_readline d h2 (tstate s2) = (Inr [], t1) \<longrightarrow>
      fst (read_line d s2) = Inr None)"
proof -
  have a: "fst (read_line loopback (snd (write_op loopback [0x41, 0x54, 0x0D, 0x0A] s)))
             = Inr (Some (strip (decode_ignore [0x41, 0x54, 0x0D, 0x0A])))"
    if "is_connected s" and "serial_conn s = Some h" and "tstate s = []"
    using that
    by (simp add: write_op_def write_body_def conn_write_def conn_flush_def read_line_def
        conn_readline_def emit_def traced_def loopback_def)
  have b: "fst (read_line d s2) = Inr None"
    if "is_connected s2" and "serial_conn s2 = Some h2"
      and "t_readline d h2 (tstate s2) = (Inr [], t1)"
    using that by (simp add: read_line_def conn_readline_def traced_def)
  from a b show ?thesis by (simp add: strip_AT)
qed

theorem read_line_after_write_witness:
  "is_connected looped \<and> serial_conn looped = Some 0 \<and> tstate looped = []
   \<and> fst (read_line loopback (snd (write_op loopback [0x41, 0x54, 0x0D, 0x0A] looped)))
       = Inr (Some [0x41, 0x54])
   \<and> t_readline loopback 0 (tstate looped) = (Inr [], [])
   \<and> fst (read_line loopback looped) = Inr None"
  using read_line_after_write [where s = looped and h = 0 and ?s2.0 = looped and ?h2.0 = 0
      and d = loopback and ?t1.0 = "[]"]
  by (simp add: looped_eval loopback_def)

subsection \<open>Which exceptions leave the operations\<close>

lemma connect_returns: "\<exists>b. fst (connect d s) = Inr b"
  by (auto simp: connect_def Let_def split: prod.splits sum.splits exn.splits)

lemma get_queued_data_returns: "\<exists>r. fst (get_queued_data s) = Inr r"
  by (simp add: get_queued_data_def Queue_get_nowait_def split: list.splits)

lemma stop_reading_raises:
  "(fst (stop_reading me s) = Inl e) = (joins_itself me s \<and> e = RuntimeError)"
  by (auto simp: stop_reading_def Thread_join_def joins_itself_def Let_def
      split: option.splits thread.splits)

lemma stop_reading_keeps:
  "serial_conn (snd (stop_reading me s)) = serial_conn s
   \<and> tstate (snd (stop_reading me s)) = tstate s"
  by (simp add: stop_reading_def emit_def Let_def split: sum.splits option.splits)

lemma disconnect_raises:
  "(fst (disconnect d me s) = Inl e) =
     (if joins_itself me s then e = RuntimeError
      else (\<exists>h t. serial_conn s = Some h \<and> t_is_open d h (tstate s)
              \<and> t_close d h (tstate s) = (Inl e, t)))"
proof -
  obtain r s1 where a: "stop_reading me s = (r, s1)" by force
  with stop_reading_keeps [of me s]
  have k: "serial_conn s1 = serial_conn s" "tstate s1 = tstate s" by simp_all
  show ?thesis
  proof (cases r)
    case (Inl x)
    with a stop_reading_raises [of me s x] show ?thesis
      by (auto simp: disconnect_def)
  next
    case (Inr u)
    with a stop_reading_raises [of me s RuntimeError] have "\<not> joins_itself me s"
      by auto
    with a Inr k show ?thesis
      by (auto simp: disconnect_def split: option.splits prod.splits sum.splits)
  qed
qed

lemma get_port_info_raises:
  "(fst (get_port_info d s) = Inl e) =
     (\<exists>h t. serial_conn s = Some h \<and> t_is_open d h (tstate s)
        \<and> t_in_waiting d h (tstate s) = (Inl e, t))"
  by (auto simp: get_port_info_def conn_in_waiting_def Let_def
      split: option.splits if_splits prod.splits sum.splits)

lemma read_line_handles:
  "fst (read_line d s) \<noteq> Inl SerialException
   \<and> (\<not> is_connected s \<longrightarrow> fst (read_line d s) = Inr None)
   \<and> (is_connected s \<and> serial_conn s = Some h
        \<and> t_readline d h (tstate s) = (Inl SerialException, t) \<longrightarrow>
      fst (read_line d s) = Inr None)"
  by (simp add: read_line_def conn_readline_def split: prod.splits sum.splits exn.splits)

lemma read_bytes_handles:
  "fst (read_bytes d n s) \<noteq> Inl SerialException
   \<and> (\<not> is_connected s \<longrightarrow> fst (read_bytes d n s) = Inr None)
   \<and> (is_connected s \<and> serial_conn s = Some h
        \<and> t_read d h n (tstate s) = (Inl SerialException, t) \<longrightarrow>
      fst (read_bytes d n s) = Inr None)"
  by (simp add: read_bytes_def conn_read_def split: prod.splits sum.splits exn.splits)

lemma write_op_handles:
  "fst (write_op d data s) \<noteq> Inl SerialException
   \<and> (\<not> is_connected s \<longrightarrow> fst (write_op d data s) = Inr False)
   \<and> (is_connected s \<and> serial_conn s = Some h
        \<and> t_write d h data (tstate s) = (Inl SerialException, t) \<longrightarrow>
      fst (write_op d data s) = Inr False)
   \<and> (is_connected s \<and> serial_conn s = Some h
        \<and> t_write d h data (tstate s) = (Inr k, t)
        \<and> t_flush d h t = (Inl SerialException, t2) \<longrightarrow>
      fst (write_op d data s) = Inr False)"
  by (simp add: write_op_def write_body_def conn_write_def conn_flush_def traced_def
      split: prod.splits sum.splits exn.splits)

lemma disconnect_failing:
  "fst (disconnect (failing e) Caller_thread (opened e)) = Inl e"
  by (simp add: opened_eval disconnect_def stop_reading_def emit_def traced_def failing_def)

lemma get_port_info_failing:
  "fst (get_port_info (failing e) (opened e)) = Inl e"
  by (simp add: opened_eval get_port_info_def conn_in_waiting_def traced_def failing_def)

lemma stop_reading_on_reader:
  "fst (stop_reading (Reader_thread 0) (snd (start_reading (opened e)))) = Inl RuntimeError"
  by (simp add: opened_eval start_reading_def stop_reading_def Thread_join_def emit_def)

text \<open>
  Claim C2, as amended. \<open>connect\<close>, \<open>set_callback\<close>, \<open>start_reading\<close> and
  \<open>get_queued_data\<close> never raise, whatever the transport does. \<open>stop_reading\<close> raises
  exactly when it is called on the reader thread it is to join, as from the listener, and
  then a \<open>RuntimeError\<close>. \<open>disconnect\<close> raises exactly when its \<open>stop_reading\<close> does or,
  that passed, when the port is held and open and the transport's \<open>close\<close> raises, and
  then what \<open>close\<close> raised. \<open>get_port_info\<close> raises exactly when a port is held and open
  and \<open>in_waiting\<close> raises, and then what it raised. \<open>read_line\<close>, \<open>read_bytes\<close> and
  \<open>write\<close> never let a \<open>SerialException\<close> out: not connected, or with a
  \<open>SerialException\<close> from the transport call (for \<open>write\<close>, from the write or the flush),
  they return \<open>None\<close>, \<open>None\<close> and \<open>False\<close>.
\<close>

theorem faults_that_can_escape:
  "(\<exists>b. fst (connect d s) = Inr b)
   \<and> fst (set_callback f s) = Inr ()
   \<and> fst (start_reading s) = Inr ()
   \<and> (\<exists>r. fst (get_queued_data s) = Inr r)
   \<and> (fst (stop_reading me s) = Inl e) = (joins_itself me s \<and> e = RuntimeError)
   \<and> (fst (disconnect d me s) = Inl e) =
       (if joins_itself me s then e = RuntimeError
        else (\<exists>h t. serial_conn s = Some h \<and> t_is_open d h (tstate s)
                \<and> t_close d h (tstate s) = (Inl e, t)))
   \<and> (fst (get_port_info d s) = Inl e) =
       (\<exists>h t. serial_conn s = Some h \<and> t_is_open d h (tstate s)
          \<and> t_in_waiting d h (tstate s) = (Inl e, t))
   \<and> fst (read_line d s) \<noteq> Inl SerialException
   \<and> fst (read_bytes d n s) \<noteq> Inl SerialException
   \<and> fst (write_op d data s) \<noteq> Inl SerialException
   \<and> (\<not> is_connected s \<longrightarrow>
        fst (read_line d s) = Inr None \<and> fst (read_bytes d n s) = Inr None
        \<and> fst (write_op d data s) = Inr False)
   \<and> (is_connected s \<and> serial_conn s = Some h0
        \<and> t_readline d h0 (tstate s) = (Inl SerialException, t1) \<longrightarrow>
        fst (read_line d s) = Inr None)
   \<and> (is_connected s \<and> serial_conn s = Some h0
        \<and> t_read d h0 n (tstate s) = (Inl SerialException, t1) \<longrightarrow>
        fst (read_bytes d n s) = Inr None)
   \<and> (is_connected s \<and> serial_conn s = Some h0
        \<and> t_write d h0 data (tstate s) = (Inl SerialException, t1) \<longrightarrow>
        fst (write_op d data s) = Inr False)
   \<and> (is_connected s \<and> serial_conn s = Some h0
        \<and> t_write d h0 data (tstate s) = (Inr k, t1)
        \<and> t_flush d h0 t1 = (Inl SerialException, t2) \<longrightarrow>
        fst (write_op d data s) = Inr False)"
proof -
  have a: "fst (set_callback f s) = Inr ()" "fst (start_reading s) = Inr ()"
    by (simp_all add: set_callback_def start_reading_def)
  show ?thesis
    using connect_returns [of d s] get_queued_data_returns [of s] a
      stop_reading_raises [of me s e] disconnect_raises [of d me s e]
      get_port_info_raises [of d s e] read_line_handles [of d s h0 t1]
      read_bytes_handles [of d n s h0 t1] write_op_handles [of d data s h0 t1 k t2]
    by blast
qed

theorem faults_that_can_escape_witness:
  "joins_itself (Reader_thread 0) (snd (start_reading (opened OtherException)))
   \<and> fst (stop_reading (Reader_thread 0) (snd (start_reading (opened OtherException))))
       = Inl RuntimeError
   \<and> fst (disconnect (failing OtherException) (Reader_thread 0)
            (snd (start_reading (opened OtherException)))) = Inl RuntimeError
   \<and> \<not> joins_itself Caller_thread (opened OtherException)
   \<and> t_close (failing OtherException) 0 (tstate (opened OtherException))
       = (Inl OtherException, 1)
   \<and> fst (disconnect (failing OtherException) Caller_thread (opened OtherException))
       = Inl OtherException
   \<and> t_in_waiting (failing SerialException) 0 (tstate (opened SerialException))
       = (Inl SerialException, 1)
   \<and> fst (get_port_info (failing SerialException) (opened SerialException))
       = Inl SerialException
   \<and> \<not> is_connected fresh
   \<and> fst (read_line (failing SerialException) fresh) = Inr None
   \<and> fst (write_op (failing SerialException) [0x41] fresh) = Inr False
   \<and> is_connected (opened SerialException)
   \<and> t_readline (failing SerialException) 0 (tstate (opened SerialException))
       = (Inl SerialException, 1)
   \<and> fst (read_line (failing SerialException) (opened SerialException)) = Inr None
   \<and> fst (read_bytes (failing SerialException) 4 (opened SerialException)) = Inr None
   \<and> fst (write_op (failing SerialException) [0x41] (opened SerialException)) = Inr False"
proof -
  have j: "joins_itself (Reader_thread 0) (snd (start_reading (opened OtherException)))"
    by (simp add: joins_itself_def opened_eval start_reading_def emit_def)
  have r: "fst (stop_reading (Reader_thread 0) (snd (start_reading (opened OtherException))))
         = Inl RuntimeError
      \<and> fst (disconnect (failing OtherException) (Reader_thread 0)
            (snd (start_reading (opened OtherException)))) = Inl RuntimeError"
    using faults_that_can_escape [where d = "failing OtherException" and me = "Reader_thread 0"
        and s = "snd (start_reading (opened OtherException))" and e = RuntimeError] j
    by simp
  have n: "\<not> joins_itself Caller_thread (opened OtherException)"
    by (simp add: joins_itself_def)
  have c: "serial_conn (opened OtherException) = Some 0"
    "t_is_open (failing OtherException) 0 (tstate (opened OtherException))"
    "t_close (failing OtherException) 0 (tstate (opened OtherException))
       = (Inl OtherException, 1)"
    by (simp_all add: opened_eval failing_def)
  have x: "fst (disconnect (failing OtherException) Caller_thread (opened OtherException))
       = Inl OtherException"
    using faults_that_can_escape [where d = "failing OtherException" and me = Caller_thread
        and s = "opened OtherException" and e = OtherException] n c
    by simp
  have o: "is_connected (opened SerialException)"
    "serial_conn (opened SerialException) = Some 0"
    "t_is_open (failing SerialException) 0 (tstate (opened SerialException))"
    "t_in_waiting (failing SerialException) 0 (tstate (opened SerialException))
       = (Inl SerialException, 1)"
    "t_readline (failing SerialException) 0 (tstate (opened SerialException))
       = (Inl SerialException, 1)"
    "t_read (failing SerialException) 0 4 (tstate (opened SerialException))
       = (Inl SerialException, 1)"
    "t_write (failing SerialException) 0 [0x41] (tstate (opened SerialException))
       = (Inl SerialException, 1)"
    by (simp_all add: opened_eval failing_def)
  have y: "fst (get_port_info (failing SerialException) (opened SerialException))
       = Inl SerialException
     \<and> fst (read_line (failing SerialException) (opened SerialException)) = Inr None
     \<and> fst (read_bytes (failing SerialException) 4 (opened SerialException)) = Inr None
     \<and> fst (write_op (failing SerialException) [0x41] (opened SerialException)) = Inr False"
    using faults_that_can_escape [where d = "failing SerialException"
        and s = "opened SerialException" and e = SerialException and ?h0.0 = 0 and ?t1.0 = 1
        and n = 4 and data = "[0x41]"] o
    by simp
  have u: "\<not> is_connected fresh" by (simp add: fresh_eval)
  have z: "fst (read_line (failing SerialException) fresh) = Inr None
     \<and> fst (write_op (failing SerialException) [0x41] fresh) = Inr False"
    using faults_that_can_escape [where d = "failing SerialException" and s = fresh
        and data = "[0x41]"] u
    by simp
  from j r n c x o y u z show ?thesis by simp
qed

text \<open>
  Claim C2 as stated fails: on a transport whose calls fail, \<open>disconnect\<close> raises what
  \<open>close\<close> raised, \<open>get_port_info\<close> what \<open>in_waiting\<close> raised, and \<open>read_line\<close> an
  exception that is not a \<open>SerialException\<close>; and \<open>stop_reading\<close> called on the reader
  thread raises a \<open>RuntimeError\<close>.
\<close>

theorem public_operation_raises:
  "fst (disconnect (failing SerialException) Caller_thread (opened SerialException))
     = Inl SerialException
   \<and> fst (get_port_info (failing OtherException) (opened OtherException))
       = Inl OtherException
   \<and> fst (read_line (failing OtherException) (opened OtherException)) = Inl OtherException
   \<and> fst (stop_reading (Reader_thread 0) (snd (start_reading (opened SerialException))))
       = Inl RuntimeError"
  by (simp add: disconnect_failing get_port_info_failing stop_reading_on_reader)
    (simp add: opened_eval read_line_def conn_readline_def traced_def failing_def)

subsection \<open>The reader after a failure\<close>

lemma started_eval:
  "snd (start_reading (opened e)) =
     (opened e)\<lparr>is_reading := True, read_thread := Some 0, threads_started := 1,
       logged := [(INFO, Msg_connected ''/dev/ttyUSB0'' 9600), (INFO, Msg_started_reading)]\<rparr>"
  by (simp add: opened_eval start_reading_def emit_def)

lemma read_loop_failing:
  "read_loop 3 (failing SerialException) (snd (start_reading (opened SerialException))) =
     (Exited,
      (opened SerialException)\<lparr>is_connected := False, is_reading := True,
        read_thread := Some 0, threads_started := 1,
        logged := [(INFO, Msg_connected ''/dev/ttyUSB0'' 9600), (INFO, Msg_started_reading),
                   (ERROR, Msg_read_error SerialException)],
        trace := [E_open default_config (Inr 0), E_in_waiting 0 (Inl SerialException)]\<rparr>)"
  unfolding started_eval
  by (simp add: opened_eval loop_pass_def loop_body_def conn_in_waiting_def
      emit_def traced_def failing_def numeral_nat)

lemma read_loop_failing_other:
  "read_loop 3 (failing OtherException) (snd (start_reading (opened OtherException))) =
     (Exited,
      (opened OtherException)\<lparr>is_reading := True,
        read_thread := Some 0, threads_started := 1,
        logged := [(INFO, Msg_connected ''/dev/ttyUSB0'' 9600), (INFO, Msg_started_reading),
                   (ERROR, Msg_read_unexpected OtherException)],
        trace := [E_open default_config (Inr 0), E_in_waiting 0 (Inl OtherException)]\<rparr>)"
  unfolding started_eval
  by (simp add: opened_eval loop_pass_def loop_body_def conn_in_waiting_def
      emit_def traced_def failing_def numeral_nat)

lemma dropped_eval:
  "dropped SerialException =
     \<lparr>port = ''/dev/ttyUSB0'', baudrate = 9600, timeout = 0x3FF0000000000000, bytesize = 8,
      parity = ''N'', stopbits = 1, serial_conn = Some 0, is_connected = False,
      is_reading = True, read_thread = Some 0, data_queue = [], callback = None,
      threads_started = 1,
      logged = [(INFO, Msg_connected ''/dev/ttyUSB0'' 9600), (INFO, Msg_started_reading),
                (ERROR, Msg_read_error SerialException)],
      trace = [E_open default_config (Inr 0), E_in_waiting 0 (Inl SerialException)],
      tstate = 1\<rparr>"
  unfolding dropped_def read_loop_failing by (simp add: opened_eval)

lemma dropped_other_eval:
  "dropped OtherException =
     \<lparr>port = ''/dev/ttyUSB0'', baudrate = 9600, timeout = 0x3FF0000000000000, bytesize = 8,
      parity = ''N'', stopbits = 1, serial_conn = Some 0, is_connected = True,
      is_reading = True, read_thread = Some 0, data_queue = [], callback = None,
      threads_started = 1,
      logged = [(INFO, Msg_connected ''/dev/ttyUSB0'' 9600), (INFO, Msg_started_reading),
                (ERROR, Msg_read_unexpected OtherException)],
      trace = [E_open default_config (Inr 0), E_in_waiting 0 (Inl OtherException)],
      tstate = 1\<rparr>"
  unfolding dropped_def read_loop_failing_other by (simp add: opened_eval)

lemma connect_dropped:
  "connect (failing SerialException) (dropped SerialException) =
     (Inr True,
      \<lparr>port = ''/dev/ttyUSB0'', baudrate = 9600, timeout = 0x3FF0000000000000, bytesize = 8,
       parity = ''N'', stopbits = 1, serial_conn = Some 1, is_connected = True,
       is_reading = True, read_thread = Some 0, data_queue = [], callback = None,
       threads_started = 1,
       logged = [(INFO, Msg_connected ''/dev/ttyUSB0'' 9600), (INFO, Msg_started_reading),
                 (ERROR, Msg_read_error SerialException),
                 (INFO, Msg_connected ''/dev/ttyUSB0'' 9600)],
       trace = [E_open default_config (Inr 0), E_in_waiting 0 (Inl SerialException),
                E_open default_config (Inr 1), E_close 0 (Inl SerialException)],
       tstate = 2\<rparr>)"
  by (simp add: dropped_eval connect_def release_def emit_def traced_def failing_def
      config.truncate_def default_config_def)

lemma loop_body_reading: "is_reading (snd (loop_body d s)) = is_reading s"
  by (simp add: loop_body_def conn_in_waiting_def conn_read_def deliver_def Queue_put_def
      emit_def traced_def Let_def split: option.splits prod.splits sum.splits)

lemma loop_pass_reading: "is_reading (snd (loop_pass d s)) = is_reading s"
proof -
  obtain r s1 where b: "loop_body d s = (r, s1)" by force
  with loop_body_reading [of d s] have "is_reading s1 = is_reading s" by simp
  with b show ?thesis
    by (cases r) (auto simp: loop_pass_def emit_def split: exn.splits)
qed

lemma read_loop_reading: "is_reading (snd (read_loop n d s)) = is_reading s"
proof (induction n arbitrary: s)
  case 0
  show ?case by simp
next
  case (Suc n)
  obtain f s1 where p: "loop_pass d s = (f, s1)" by force
  with loop_pass_reading [of d s] have "is_reading s1 = is_reading s" by simp
  with p Suc show ?case by (cases f) auto
qed

text \<open>
  Claim C4 as stated fails on the session the failing transport leaves behind: it is not
  connected and its reading flag is set; \<open>start_reading\<close> leaves the flag set, and what it
  logs is the error, not the warning.
\<close>

theorem start_reading_when_dropped:
  "\<not> is_connected (dropped SerialException)
   \<and> is_reading (dropped SerialException)
   \<and> is_reading (snd (start_reading (dropped SerialException)))
   \<and> logged (snd (start_reading (dropped SerialException)))
       = logged (dropped SerialException) @ [(ERROR, Msg_not_connected)]"
  by (simp add: dropped_eval start_reading_def emit_def)

text \<open>
  Claim C3, on the failing transport. The reader thread ends at the first poll and
  leaves the session disconnected; \<open>start_reading\<close> then starts no thread. After
  \<open>connect\<close> has succeeded again, \<open>start_reading\<close> still starts no thread: the reading flag
  is still set, so it logs that the session is already reading and returns.
\<close>

theorem restart_after_failure_refused:
  "fst (read_loop 3 (failing SerialException) (snd (start_reading (opened SerialException))))
     = Exited
   \<and> \<not> is_connected (dropped SerialException)
   \<and> threads_started (dropped SerialException) = 1
   \<and> threads_started (snd (start_reading (dropped SerialException))) = 1
   \<and> fst (connect (failing SerialException) (dropped SerialException)) = Inr True
   \<and> is_connected reopened
   \<and> start_reading reopened
       = (Inr (), reopened\<lparr>logged := logged reopened @ [(WARNING, Msg_already_reading)]\<rparr>)
   \<and> threads_started (snd (start_reading reopened)) = 1"
proof -
  have a: "fst (read_loop 3 (failing SerialException)
      (snd (start_reading (opened SerialException)))) = Exited"
    by (simp add: read_loop_failing)
  have b: "\<not> is_connected (dropped SerialException)
      \<and> threads_started (dropped SerialException) = 1
      \<and> threads_started (snd (start_reading (dropped SerialException))) = 1"
    by (simp add: dropped_eval start_reading_def emit_def)
  have c: "fst (connect (failing SerialException) (dropped SerialException)) = Inr True"
    by (simp add: connect_dropped)
  have d: "is_connected reopened \<and> is_reading reopened \<and> threads_started reopened = 1"
    by (simp add: reopened_def connect_dropped)
  then have e: "start_reading reopened
       = (Inr (), reopened\<lparr>logged := logged reopened @ [(WARNING, Msg_already_reading)]\<rparr>)"
    by (simp add: start_reading_def emit_def)
  from a b c d e show ?thesis by simp
qed

text \<open>
  Claim C8. The reader thread never changes the reading flag. In particular, when the
  loop ends on a \<open>SerialException\<close> or on any other exception, the flag is still set.
\<close>

theorem reading_flag_survives_failure:
  "is_reading (snd (read_loop n d s)) = is_reading s
   \<and> fst (read_loop 3 (failing SerialException) (snd (start_reading (opened SerialException))))
       = Exited
   \<and> is_reading (dropped SerialException)
   \<and> fst (read_loop 3 (failing OtherException) (snd (start_reading (opened OtherException))))
       = Exited
   \<and> is_reading (dropped OtherException)
   \<and> is_connected (dropped OtherException)"
  by (simp add: read_loop_reading read_loop_failing read_loop_failing_other dropped_eval
      dropped_other_eval)

end
